theory Spec2Isabelle
  imports Complex_Main
begin

section \<open>Conventions\<close>

text \<open>
  The development embeds the TypeScript sources of the support-chat backend.

  \<^item> A JavaScript \<open>string\<close> is a \<open>string\<close> here; one list element stands for one
    UTF-16 code unit, which is what \<open>.length\<close> and \<open>.substring\<close> count.
  \<^item> A JavaScript \<open>number\<close> is a double. One that holds an amount of money or a
    confidence is modelled by its value, a rational (\<open>rat\<close>). Comparing two doubles
    and testing one for zero are exact, and are the comparison and the test of their
    values. Subtracting rounds: the subtraction of doubles is not a function of this
    theory but a parameter (\<open>fsub\<close>) of the one function that subtracts, and the only
    fact used about it is that a number minus itself is 0. A decimal literal in an
    example stands for the double nearest to it; the examples only compare such numbers,
    subtract one from itself or subtract 0, which is exact.
  \<^item> A value of type \<open>unknown\<close> that the code only stores and forwards (tool
    arguments, tool results) is a \<open>json\<close>, its serialised text.
  \<^item> A nullable or optional field is an \<open>option\<close>.
\<close>

type_synonym json = string

section \<open>Billing tools (apps/api/src/tools/billing.tools.ts)\<close>

datatype PaymentStatus = pending | completed | failed | refunded | partially_refunded

record Payment =
  invoiceNumber :: string
  amount :: rat
  status :: PaymentStatus
  payment_method :: string
  refundAmount :: "rat option"
  refundReason :: "string option"

text \<open>
  \<open>db.payment.findUnique({ where: { invoiceNumber } })\<close>: the row with that invoice
  number (the column is unique), or null.
\<close>

definition payment_findUnique :: "Payment list \<Rightarrow> string \<Rightarrow> Payment option" where
  "payment_findUnique tbl n = find (\<lambda>p. invoiceNumber p = n) tbl"

text \<open>\<open>x || 0\<close> on a nullable number: null and 0 are both falsy.\<close>

definition or_zero :: "rat option \<Rightarrow> rat" where
  "or_zero x = (case x of None \<Rightarrow> 0 | Some r \<Rightarrow> (if r = 0 then 0 else r))"

text \<open>
  The \<open>message\<close> of a refund status is one of three templates; the constructor says
  which, and carries the values the template interpolates (the refund amount, and the
  remaining balance in the partial-refund sentence).
\<close>

datatype RefundMessage =
    RefundProcessed "rat option" "rat option"
  | RefundEligibleMsg
  | CannotBeRefunded PaymentStatus

record RefundStatus =
  rs_invoiceNumber :: string
  originalAmount :: rat
  paymentStatus :: PaymentStatus
  hasRefund :: bool
  rs_refundAmount :: "rat option"
  rs_refundReason :: "string option"
  remainingBalance :: "rat option"
  refundEligible :: bool
  rs_message :: RefundMessage

datatype CheckRefundResult =
    RefundNotFound string
  | RefundFound RefundStatus

text \<open>
  \<open>checkRefundStatus\<close>; \<open>fsub\<close> is the subtraction of doubles (see the
  conventions).
\<close>

definition checkRefundStatus ::
  "(rat \<Rightarrow> rat \<Rightarrow> rat) \<Rightarrow> Payment list \<Rightarrow> string \<Rightarrow> CheckRefundResult" where
  "checkRefundStatus fsub tbl n =
    (case payment_findUnique tbl n of
       None \<Rightarrow> RefundNotFound n
     | Some payment \<Rightarrow>
        (let hasRefund' = (status payment = refunded \<or> status payment = partially_refunded)
         in RefundFound
           \<lparr> rs_invoiceNumber = invoiceNumber payment,
             originalAmount = amount payment,
             paymentStatus = status payment,
             hasRefund = hasRefund',
             rs_refundAmount = refundAmount payment,
             rs_refundReason = refundReason payment,
             remainingBalance =
               (if hasRefund'
                then Some (fsub (amount payment) (or_zero (refundAmount payment)))
                else None),
             refundEligible = (status payment = completed),
             rs_message =
               (if hasRefund' then
                  RefundProcessed (refundAmount payment)
                    (if status payment = partially_refunded
                     then Some (fsub (amount payment) (or_zero (refundAmount payment)))
                     else None)
                else if status payment = completed then RefundEligibleMsg
                else CannotBeRefunded (status payment)) \<rparr>))"

text \<open>
  \<open>requestRefund\<close>. The optional \<open>amount\<close> argument defaults with \<open>||\<close>, so an
  absent amount and the amount 0 both ask for the full payment amount. The reference
  number is built from the clock (\<open>Date.now()\<close>), passed in as \<open>now\<close>. The payment
  table is threaded through and returned, so that what the tool writes is part of its
  result.
\<close>

record RefundRequest =
  rr_invoiceNumber :: string
  rr_originalAmount :: rat
  rr_refundAmount :: rat
  isPartialRefund :: bool
  rr_reason :: string
  estimatedProcessingTime :: string
  refundMethod :: string
  referenceNumber :: nat

datatype RefundOutcome =
    NoInvoice string
  | NotRefundable string PaymentStatus
  | ExceedsOriginal rat rat
  | RefundInitiated RefundRequest

fun success :: "RefundOutcome \<Rightarrow> bool" where
  "success (NoInvoice _) = False"
| "success (NotRefundable _ _) = False"
| "success (ExceedsOriginal _ _) = False"
| "success (RefundInitiated _) = True"

definition amount_or :: "rat option \<Rightarrow> rat \<Rightarrow> rat" where
  "amount_or a d = (case a of None \<Rightarrow> d | Some r \<Rightarrow> (if r = 0 then d else r))"

definition requestRefund ::
  "nat \<Rightarrow> Payment list \<Rightarrow> string \<Rightarrow> rat option \<Rightarrow> string \<Rightarrow> RefundOutcome \<times> Payment list" where
  "requestRefund now tbl n amt reason =
    (case payment_findUnique tbl n of
       None \<Rightarrow> (NoInvoice n, tbl)
     | Some payment \<Rightarrow>
        if status payment \<noteq> completed then (NotRefundable n (status payment), tbl)
        else
          (let refundAmount' = amount_or amt (amount payment) in
           if refundAmount' > amount payment
           then (ExceedsOriginal refundAmount' (amount payment), tbl)
           else
             (RefundInitiated
               \<lparr> rr_invoiceNumber = invoiceNumber payment,
                 rr_originalAmount = amount payment,
                 rr_refundAmount = refundAmount',
                 isPartialRefund = (refundAmount' < amount payment),
                 rr_reason = reason,
                 estimatedProcessingTime = ''5-7 business days'',
                 refundMethod = ''Original payment method ('' @ payment_method payment @ '')'',
                 referenceNumber = now \<rparr>, tbl)))"

section \<open>Shared types (packages/shared)\<close>

datatype AgentType = router | support | order | billing

datatype MessageRole = user | assistant | system | tool

text \<open>
  A recorded tool invocation \<open>{ tool, args, result }\<close>. The \<open>data\<close> of a
  \<open>tool_call\<close> event has no \<open>result\<close> and that of a \<open>tool_result\<close> event no
  \<open>args\<close>; a step's tool call without a matching result records \<open>undefined\<close>.
\<close>

record ToolCallData =
  tc_tool :: string
  tc_args :: "json option"
  tc_result :: "json option"

text \<open>
  The two payloads that travel under the event type \<open>done\<close>: the responder's
  \<open>{ fullText, toolCalls }\<close> and the chat service's
  \<open>{ conversationId, messageId, agentType, fullText }\<close>.
\<close>

datatype DoneData =
    AgentDone string "ToolCallData list"
  | ChatDone string string AgentType string

fun done_fullText :: "DoneData \<Rightarrow> string" where
  "done_fullText (AgentDone fullText _) = fullText"
| "done_fullText (ChatDone _ _ _ fullText) = fullText"

fun done_toolCalls :: "DoneData \<Rightarrow> ToolCallData list option" where
  "done_toolCalls (AgentDone _ toolCalls) = Some toolCalls"
| "done_toolCalls (ChatDone _ _ _ _) = None"

text \<open>
  A stream chunk \<open>{ type, data }\<close>, one constructor per \<open>type\<close>:
  \<open>thinking {message, conversationId?}\<close>, \<open>routing {agent, agentName, reason,
  confidence}\<close>, \<open>tool_call {tool, args}\<close>, \<open>tool_result {tool, result}\<close>,
  \<open>text_delta {delta}\<close>, \<open>done\<close> and \<open>error {message}\<close>.
\<close>

datatype StreamChunk =
    Thinking string "string option"
  | Routing AgentType string string rat
  | ToolCall string json
  | ToolResult string json
  | TextDelta string
  | Done DoneData
  | Error string

fun is_routing :: "StreamChunk \<Rightarrow> bool" where
  "is_routing (Routing _ _ _ _) = True"
| "is_routing _ = False"

fun is_tool_call :: "StreamChunk \<Rightarrow> bool" where
  "is_tool_call (ToolCall _ _) = True"
| "is_tool_call _ = False"

fun is_text_delta :: "StreamChunk \<Rightarrow> bool" where
  "is_text_delta (TextDelta _) = True"
| "is_text_delta _ = False"

fun is_done :: "StreamChunk \<Rightarrow> bool" where
  "is_done (Done _) = True"
| "is_done _ = False"

fun is_error :: "StreamChunk \<Rightarrow> bool" where
  "is_error (Error _) = True"
| "is_error _ = False"

text \<open>The \<open>delta\<close> fields of the \<open>text_delta\<close> events of a sequence, in order.\<close>

fun deltas :: "StreamChunk list \<Rightarrow> string list" where
  "deltas [] = []"
| "deltas (TextDelta d # cs) = d # deltas cs"
| "deltas (_ # cs) = deltas cs"

section \<open>The text-generation capability\<close>

text \<open>
  The language model is outside the repository. Each call the agents make into the
  \<open>ai\<close> package is a function from the request to what the call does: the router's
  \<open>generateText\<close> either throws or returns a result with its tool calls;
  \<open>streamText\<close> delivers the parts of \<open>fullStream\<close>, runs \<open>onStepFinish\<close> once for
  each step, and may throw after the parts it delivered; the responders' own
  \<open>generateText\<close> throws or returns the text and the finished steps. Theorems quantify
  over the model, so they hold for whatever it answers.
\<close>

datatype Thrown = ErrorObject string | NonError

text \<open>\<open>error instanceof Error ? error.message : 'An unexpected error occurred'\<close>\<close>

fun error_message :: "Thrown \<Rightarrow> string" where
  "error_message (ErrorObject msg) = msg"
| "error_message NonError = ''An unexpected error occurred''"

record RoutingResult =
  rr_agent :: AgentType
  confidence :: rat
  reasoning :: string

text \<open>A tool call of the routing result: \<open>toolName\<close> and \<open>args\<close>.\<close>

record RouteToolCall =
  toolName :: string
  rt_args :: RoutingResult

datatype TextStreamPart =
    PartToolCall string string json
  | PartToolResult string string json
  | PartTextDelta string
  | PartOther string

text \<open>
  A finished step as \<open>onStepFinish\<close> receives it: \<open>toolCalls\<close> as
  (toolCallId, toolName, args) and \<open>toolResults\<close> as (toolCallId, result).
\<close>

record StepResult =
  step_toolCalls :: "(string \<times> string \<times> json) list"
  step_toolResults :: "(string \<times> json) list"

record StreamTextOutcome =
  parts :: "TextStreamPart list"
  steps :: "StepResult list"
  thrown :: "Thrown option"

record CoreMessage =
  role :: MessageRole
  content :: string

text \<open>
  The request of a responder: \<open>st_agent\<close> stands for the agent's fixed system prompt,
  tool set and model, the two identifiers are what \<open>buildSystemPrompt\<close> adds to the
  prompt.
\<close>

record StreamTextRequest =
  st_agent :: AgentType
  st_userId :: string
  st_conversationId :: string
  st_messages :: "CoreMessage list"
  st_maxSteps :: nat

text \<open>
  The request of the router is its one user message; the system prompt, the \<open>route\<close>
  tool and the forced tool choice are the same in every call. The responders'
  non-streaming call (\<open>generateText_agent\<close>) takes the request of a responder.
\<close>

record LanguageModel =
  generateText :: "string \<Rightarrow> Thrown + RouteToolCall list"
  streamText :: "StreamTextRequest \<Rightarrow> StreamTextOutcome"
  generateText_agent :: "StreamTextRequest \<Rightarrow> Thrown + string \<times> StepResult list"

section \<open>Responders (agents/base.agent.ts and the three agents)\<close>

record AgentContext =
  userId :: string
  conversationId :: string
  messages :: "CoreMessage list"

text \<open>
  An agent's configuration: its type, display name and description. The system prompt
  and the tools are fixed per type and reach the model through \<open>st_agent\<close>.
\<close>

record AgentConfig =
  agent_type :: AgentType
  agent_name :: string
  agent_description :: string

definition supportAgent :: AgentConfig where
  "supportAgent =
    \<lparr> agent_type = support, agent_name = ''Support Agent'',
      agent_description = ''Handles general support inquiries, FAQs, and troubleshooting'' \<rparr>"

definition orderAgent :: AgentConfig where
  "orderAgent =
    \<lparr> agent_type = order, agent_name = ''Order Agent'',
      agent_description =
        ''Handles order status, tracking, modifications, and cancellations'' \<rparr>"

definition billingAgent :: AgentConfig where
  "billingAgent =
    \<lparr> agent_type = billing, agent_name = ''Billing Agent'',
      agent_description =
        ''Handles payment issues, refunds, invoices, and subscription queries'' \<rparr>"

text \<open>
  \<open>onStepFinish\<close>: for each tool call of the step, in order, look up the result with
  the same \<open>toolCallId\<close> and push \<open>{ tool, args, result }\<close>.
\<close>

definition onStepFinish :: "StepResult \<Rightarrow> ToolCallData list \<Rightarrow> ToolCallData list" where
  "onStepFinish step toolCalls =
    toolCalls @
    map (\<lambda>(toolCallId, toolName', args).
           \<lparr> tc_tool = toolName', tc_args = Some args,
             tc_result = map_option snd
               (find (\<lambda>r. fst r = toolCallId) (step_toolResults step)) \<rparr>)
        (step_toolCalls step)"

text \<open>
  The \<open>for await\<close> loop of \<open>streamResponse\<close> over \<open>fullStream\<close>: the chunks it
  yields and the value of \<open>fullText\<close> when the stream is exhausted. A part of any
  other type yields nothing.
\<close>

fun stream_parts :: "TextStreamPart list \<Rightarrow> string \<Rightarrow> StreamChunk list \<times> string" where
  "stream_parts [] fullText = ([], fullText)"
| "stream_parts (PartToolCall _ toolName' args # ps) fullText =
     (let (chunks, fullText') = stream_parts ps fullText
      in (ToolCall toolName' args # chunks, fullText'))"
| "stream_parts (PartToolResult _ toolName' res # ps) fullText =
     (let (chunks, fullText') = stream_parts ps fullText
      in (ToolResult toolName' res # chunks, fullText'))"
| "stream_parts (PartTextDelta textDelta # ps) fullText =
     (let (chunks, fullText') = stream_parts ps (fullText @ textDelta)
      in (TextDelta textDelta # chunks, fullText'))"
| "stream_parts (PartOther _ # ps) fullText = stream_parts ps fullText"

text \<open>
  \<open>BaseAgent.streamResponse\<close>: the chunks the generator yields, and the exception
  that ends it if the stream throws. The \<open>done\<close> chunk is yielded only after the stream
  is exhausted; it reads \<open>toolCalls\<close> as the step callbacks have left it.
\<close>

definition streamResponse ::
  "AgentConfig \<Rightarrow> LanguageModel \<Rightarrow> AgentContext \<Rightarrow> StreamChunk list \<times> Thrown option" where
  "streamResponse config model context =
    (let result = streamText model
           \<lparr> st_agent = agent_type config, st_userId = userId context,
             st_conversationId = conversationId context,
             st_messages = messages context, st_maxSteps = 5 \<rparr>;
         toolCalls = foldl (\<lambda>acc step. onStepFinish step acc) [] (steps result);
         (chunks, fullText) = stream_parts (parts result) []
     in case thrown result of
          Some e \<Rightarrow> (chunks, Some e)
        | None \<Rightarrow> (chunks @ [Done (AgentDone fullText toolCalls)], None))"

text \<open>
  \<open>BaseAgent.generateResponse\<close>: \<open>{ content, toolCalls }\<close>, the tool calls
  \<open>undefined\<close> when none was recorded.
\<close>

record AgentResponse =
  ar_content :: string
  ar_toolCalls :: "ToolCallData list option"

definition generateResponse ::
  "AgentConfig \<Rightarrow> LanguageModel \<Rightarrow> AgentContext \<Rightarrow> Thrown + AgentResponse" where
  "generateResponse config model context =
    (case generateText_agent model
            \<lparr> st_agent = agent_type config, st_userId = userId context,
              st_conversationId = conversationId context,
              st_messages = messages context, st_maxSteps = 5 \<rparr> of
       Inl e \<Rightarrow> Inl e
     | Inr (text', steps') \<Rightarrow>
        (let toolCalls = foldl (\<lambda>acc step. onStepFinish step acc) [] steps'
         in Inr \<lparr> ar_content = text',
                  ar_toolCalls = (if length toolCalls > 0 then Some toolCalls else None) \<rparr>))"

section \<open>Router (agents/router.agent.ts)\<close>

fun getAgent :: "AgentType \<Rightarrow> AgentConfig option" where
  "getAgent support = Some supportAgent"
| "getAgent order = Some orderAgent"
| "getAgent billing = Some billingAgent"
| "getAgent router = None"

text \<open>
  The user message of the classification call, built from the last user message and
  from whether the history has assistant messages (\<open>.slice(-3)\<close> of them is
  non-empty).
\<close>

definition route_request :: "AgentContext \<Rightarrow> CoreMessage \<Rightarrow> string" where
  "route_request context lastUserMessage =
    (let assistantMessages = filter (\<lambda>m. role m = assistant) (messages context);
         recentAgentMessages = drop (length assistantMessages - 3) assistantMessages;
         conversationContext =
           (if length recentAgentMessages > 0
            then ''Recent conversation has been with agents handling previous queries.''
            else ''This is the start of the conversation.'')
     in ''Context: '' @ conversationContext @ [CHR 0x0A, CHR 0x0A] @
        ''Current user message: '' @ [CHR 0x22] @ content lastUserMessage @ [CHR 0x22] @
        [CHR 0x0A, CHR 0x0A] @
        ''Analyze this message and route it to the appropriate agent. Call the route tool with your decision.'')"

text \<open>
  \<open>RouterAgent.route\<close>. The result is what the promise settles to (\<open>Inl\<close> when
  \<open>generateText\<close> throws), paired with the requests sent to the model, in order.
\<close>

definition route ::
  "LanguageModel \<Rightarrow> AgentContext \<Rightarrow>
     (Thrown + AgentConfig \<times> RoutingResult) \<times> string list" where
  "route model context =
    (case find (\<lambda>m. role m = user) (rev (messages context)) of
       None \<Rightarrow>
         (Inr (supportAgent,
               \<lparr> rr_agent = support, confidence = 1,
                 reasoning = ''No user message found, defaulting to support'' \<rparr>), [])
     | Some lastUserMessage \<Rightarrow>
        (let request = route_request context lastUserMessage
         in case generateText model request of
              Inl e \<Rightarrow> (Inl e, [request])
            | Inr toolCalls \<Rightarrow>
               (let toolCall = (case toolCalls of [] \<Rightarrow> None | t # _ \<Rightarrow> Some t)
                in if toolCall \<noteq> None \<and> toolName (the toolCall) = ''route''
                   then (let routing = rt_args (the toolCall);
                             agent = (case getAgent (rr_agent routing) of
                                        Some a \<Rightarrow> a | None \<Rightarrow> supportAgent)
                         in (Inr (agent, routing), [request]))
                   else (Inr (supportAgent,
                              \<lparr> rr_agent = support, confidence = 1/2,
                                reasoning =
                                  ''Could not determine intent, defaulting to support'' \<rparr>),
                         [request]))))"

text \<open>
  \<open>RouterAgent.processMessage\<close>. The whole body is inside \<open>try\<close>, and the
  \<open>catch\<close> yields one \<open>error\<close> chunk, so the generator never throws: its result
  is the list of chunks.
\<close>

definition processMessage :: "LanguageModel \<Rightarrow> AgentContext \<Rightarrow> StreamChunk list" where
  "processMessage model context =
    Thinking ''Analyzing your request...'' None #
    (case fst (route model context) of
       Inl e \<Rightarrow> [Error (error_message e)]
     | Inr (agent, routing) \<Rightarrow>
         Routing (agent_type agent) (agent_name agent) (reasoning routing)
           (confidence routing) #
         Thinking (''Connecting you with '' @ agent_name agent @ ''...'') None #
         (case streamResponse agent model context of
            (chunks, None) \<Rightarrow> chunks
          | (chunks, Some e) \<Rightarrow> chunks @ [Error (error_message e)]))"

text \<open>
  \<open>RouterAgent.generateResponse\<close> has no \<open>try\<close>: an exception of \<open>route\<close> or of
  the responder rejects the promise.
\<close>

definition router_generateResponse ::
  "LanguageModel \<Rightarrow> AgentContext \<Rightarrow> Thrown + AgentType \<times> RoutingResult \<times> AgentResponse" where
  "router_generateResponse model context =
    (case fst (route model context) of
       Inl e \<Rightarrow> Inl e
     | Inr (agent, routing) \<Rightarrow>
        (case generateResponse agent model context of
           Inl e \<Rightarrow> Inl e
         | Inr response \<Rightarrow> Inr (agent_type agent, routing, response)))"

section \<open>Conversation service (services/conversation.service.ts)\<close>

text \<open>
  The store behind \<open>db\<close>: the conversation rows and the message rows. Messages are
  kept in creation order, which is the order \<open>orderBy: { createdAt: 'asc' }\<close> returns.
\<close>

record Conversation =
  c_id :: string
  c_userId :: string
  title :: "string option"
  summary :: "string option"
  updatedAt :: nat

record Message =
  m_id :: string
  m_conversationId :: string
  m_role :: MessageRole
  m_content :: string
  m_agentType :: "AgentType option"
  m_toolCalls :: "ToolCallData list option"
  createdAt :: nat

record Database =
  conversationTbl :: "Conversation list"
  messageTbl :: "Message list"
  clock :: nat
  nextId :: nat

text \<open>
  Modelled from the spec: the persistence collaborator behind \<open>db\<close> (the Prisma
  client \<open>db/client.js\<close> and the database schema are not among the sources).
  \<open>create\<close> draws the row's identifier from a counter; a message can only be created
  for an existing conversation (the relation the \<open>include: { messages }\<close> queries rely
  on), and \<open>update\<close> throws when no row has the identifier, as the \<open>try\<close> around it
  in \<open>updateConversation\<close> expects.
\<close>

definition fresh_id :: "nat \<Rightarrow> string" where
  "fresh_id k = CHR ''c'' # replicate k (CHR ''0'')"

definition conversation_exists :: "Database \<Rightarrow> string \<Rightarrow> bool" where
  "conversation_exists db cid = (find (\<lambda>c. c_id c = cid) (conversationTbl db) \<noteq> None)"

definition conversation_update ::
  "string \<Rightarrow> (Conversation \<Rightarrow> Conversation) \<Rightarrow> Database \<Rightarrow> Thrown + Database" where
  "conversation_update cid f db =
    (if conversation_exists db cid
     then Inr (db\<lparr> conversationTbl :=
                 map (\<lambda>c. if c_id c = cid then f c else c) (conversationTbl db) \<rparr>)
     else Inl (ErrorObject ''Record to update not found.''))"

definition createConversation ::
  "string \<Rightarrow> string option \<Rightarrow> Database \<Rightarrow> Conversation \<times> Database" where
  "createConversation uid title' db =
    (let conversation =
           \<lparr> c_id = fresh_id (nextId db), c_userId = uid, title = title',
             summary = None, updatedAt = clock db \<rparr>
     in (conversation,
         db\<lparr> conversationTbl := conversationTbl db @ [conversation],
             nextId := Suc (nextId db) \<rparr>))"

record CreateMessageInput =
  cm_conversationId :: string
  cm_role :: MessageRole
  cm_content :: string
  cm_agentType :: "AgentType option"
  cm_toolCalls :: "ToolCallData list option"

definition addMessage :: "CreateMessageInput \<Rightarrow> Database \<Rightarrow> Thrown + Message \<times> Database" where
  "addMessage input db =
    (if \<not> conversation_exists db (cm_conversationId input)
     then Inl (ErrorObject ''Foreign key constraint failed'')
     else
       (let message =
              \<lparr> m_id = fresh_id (nextId db),
                m_conversationId = cm_conversationId input,
                m_role = cm_role input, m_content = cm_content input,
                m_agentType = cm_agentType input, m_toolCalls = cm_toolCalls input,
                createdAt = clock db \<rparr>;
            db1 = db\<lparr> messageTbl := messageTbl db @ [message],
                      nextId := Suc (nextId db), clock := Suc (clock db) \<rparr>
        in case conversation_update (cm_conversationId input)
                  (\<lambda>c. c\<lparr> updatedAt := clock db1 \<rparr>) db1 of
             Inl e \<Rightarrow> Inl e
           | Inr db2 \<Rightarrow> Inr (message, db2)))"

text \<open>\<open>getMessages\<close> without options: \<open>take: options?.limit || 50\<close>.\<close>

definition getMessages :: "string \<Rightarrow> Database \<Rightarrow> Message list" where
  "getMessages cid db = take 50 (filter (\<lambda>m. m_conversationId m = cid) (messageTbl db))"

text \<open>
  \<open>updateConversation\<close> with \<open>data = { title }\<close>: the updated row, or null when the
  update throws.
\<close>

definition updateConversation_title ::
  "string \<Rightarrow> string \<Rightarrow> Database \<Rightarrow> Conversation option \<times> Database" where
  "updateConversation_title cid title' db =
    (case conversation_update cid (\<lambda>c. c\<lparr> title := Some title' \<rparr>) db of
       Inl _ \<Rightarrow> (None, db)
     | Inr db' \<Rightarrow> (find (\<lambda>c. c_id c = cid) (conversationTbl db'), db'))"

definition generateTitle :: "string \<Rightarrow> Database \<Rightarrow> string \<times> Database" where
  "generateTitle cid db =
    (let msgs = take 2 (filter (\<lambda>m. m_conversationId m = cid) (messageTbl db))
     in if length msgs = 0 then (''New Conversation'', db)
        else
          (case find (\<lambda>m. m_role m = user) msgs of
             None \<Rightarrow> (''New Conversation'', db)
           | Some firstUserMessage \<Rightarrow>
              (let content' = m_content firstUserMessage;
                   title' = (if length content' > 50 then take 47 content' @ ''...''
                             else content')
               in (title', snd (updateConversation_title cid title' db)))))"

section \<open>Chat service (services/chat.service.ts)\<close>

record ChatInput =
  in_userId :: string
  in_conversationId :: "string option"
  in_message :: string

text \<open>The variables the \<open>for await\<close> loop of \<open>streamChat\<close> carries.\<close>

record ChatLoop =
  fullResponse :: string
  agentType :: AgentType
  toolCalls :: "ToolCallData list"

text \<open>
  One pass through the loop body, up to the \<open>yield chunk\<close> that ends it. In the
  \<open>done\<close> case \<open>doneData.fullText || fullResponse\<close> keeps the accumulated text
  when the payload's text is empty, and \<open>doneData.toolCalls || toolCalls\<close> takes the
  payload's list whenever it has one.
\<close>

fun chat_step :: "ChatLoop \<Rightarrow> StreamChunk \<Rightarrow> ChatLoop" where
  "chat_step st (Routing agent _ _ _) = st\<lparr> agentType := agent \<rparr>"
| "chat_step st (TextDelta delta) = st\<lparr> fullResponse := fullResponse st @ delta \<rparr>"
| "chat_step st (ToolCall tool' args) =
     st\<lparr> toolCalls := toolCalls st @
            [\<lparr> tc_tool = tool', tc_args = Some args, tc_result = None \<rparr>] \<rparr>"
| "chat_step st (ToolResult tool' res) =
     st\<lparr> toolCalls := toolCalls st @
            [\<lparr> tc_tool = tool', tc_args = None, tc_result = Some res \<rparr>] \<rparr>"
| "chat_step st (Done doneData) =
     st\<lparr> fullResponse :=
            (if done_fullText doneData \<noteq> [] then done_fullText doneData
             else fullResponse st),
         toolCalls :=
            (case done_toolCalls doneData of Some l \<Rightarrow> l | None \<Rightarrow> toolCalls st) \<rparr>"
| "chat_step st (Thinking _ _) = st"
| "chat_step st (Error _) = st"

text \<open>\<open>!conversationId\<close>: the identifier is absent or the empty string.\<close>

fun no_conversationId :: "string option \<Rightarrow> bool" where
  "no_conversationId None = True"
| "no_conversationId (Some cid) = (cid = [])"

text \<open>
  The first step of \<open>streamChat\<close>: the conversation identifier the request runs under,
  the chunk announcing a new conversation (if one was created) and the store afterwards.
\<close>

definition open_conversation ::
  "ChatInput \<Rightarrow> Database \<Rightarrow> string \<times> StreamChunk list \<times> Database" where
  "open_conversation input db =
    (if no_conversationId (in_conversationId input)
     then (let (conversation, db1) = createConversation (in_userId input) None db
           in (c_id conversation,
               [Thinking ''Starting new conversation...'' (Some (c_id conversation))],
               db1))
     else (the (in_conversationId input), [], db))"

text \<open>
  \<open>ChatService.streamChat\<close>: the chunks the generator yields, the exception that
  ends it if a store operation throws, and the store afterwards.
\<close>

definition streamChat ::
  "LanguageModel \<Rightarrow> ChatInput \<Rightarrow> Database \<Rightarrow>
     (StreamChunk list \<times> Thrown option) \<times> Database" where
  "streamChat model input db =
    (let (cid, started, db1) = open_conversation input db
     in case addMessage
               \<lparr> cm_conversationId = cid, cm_role = user, cm_content = in_message input,
                 cm_agentType = None, cm_toolCalls = None \<rparr> db1 of
          Inl e \<Rightarrow> ((started, Some e), db1)
        | Inr (_, db2) \<Rightarrow>
           (let history = getMessages cid db2;
                messages' = map (\<lambda>msg. \<lparr> role = m_role msg, content = m_content msg \<rparr>)
                              history;
                chunks = processMessage model
                           \<lparr> userId = in_userId input, conversationId = cid,
                             messages = messages' \<rparr>;
                st = foldl chat_step
                       \<lparr> fullResponse = [], agentType = support, toolCalls = [] \<rparr> chunks
            in case addMessage
                      \<lparr> cm_conversationId = cid, cm_role = assistant,
                        cm_content = fullResponse st,
                        cm_agentType = Some (agentType st),
                        cm_toolCalls =
                          (if length (filter (\<lambda>t. tc_tool t \<noteq> []) (toolCalls st)) > 0
                           then Some (toolCalls st) else None) \<rparr> db2 of
                 Inl e \<Rightarrow> ((started @ chunks, Some e), db2)
               | Inr (savedMessage, db3) \<Rightarrow>
                  (let db4 = (if length history = 1 then snd (generateTitle cid db3)
                              else db3)
                   in ((started @ chunks @
                         [Done (ChatDone cid (m_id savedMessage) (agentType st)
                                  (fullResponse st))], None),
                       db4))))"

text \<open>
  \<open>ChatService.chat\<close>, the synchronous mode: the result
  \<open>{ conversationId, messageId, agentType, response, toolsUsed }\<close> or the exception
  that rejects the promise, and the store afterwards.
\<close>

record ChatResult =
  res_conversationId :: string
  res_messageId :: string
  res_agentType :: AgentType
  res_response :: string
  res_toolsUsed :: "string list"

definition chat ::
  "LanguageModel \<Rightarrow> ChatInput \<Rightarrow> Database \<Rightarrow> (Thrown + ChatResult) \<times> Database" where
  "chat model input db =
    (let (cid, started, db1) = open_conversation input db
     in case addMessage
               \<lparr> cm_conversationId = cid, cm_role = user, cm_content = in_message input,
                 cm_agentType = None, cm_toolCalls = None \<rparr> db1 of
          Inl e \<Rightarrow> (Inl e, db1)
        | Inr (_, db2) \<Rightarrow>
           (let history = getMessages cid db2;
                messages' = map (\<lambda>msg. \<lparr> role = m_role msg, content = m_content msg \<rparr>)
                              history
            in case router_generateResponse model
                      \<lparr> userId = in_userId input, conversationId = cid,
                        messages = messages' \<rparr> of
                 Inl e \<Rightarrow> (Inl e, db2)
               | Inr (agent, routing, response) \<Rightarrow>
                  (case addMessage
                          \<lparr> cm_conversationId = cid, cm_role = assistant,
                            cm_content = ar_content response,
                            cm_agentType = Some agent,
                            cm_toolCalls = ar_toolCalls response \<rparr> db2 of
                     Inl e \<Rightarrow> (Inl e, db2)
                   | Inr (savedMessage, db3) \<Rightarrow>
                      (let db4 = (if length history = 1 then snd (generateTitle cid db3)
                                  else db3)
                       in (Inr \<lparr> res_conversationId = cid,
                                  res_messageId = m_id savedMessage,
                                  res_agentType = agent,
                                  res_response = ar_content response,
                                  res_toolsUsed =
                                    (case ar_toolCalls response of
                                       Some l \<Rightarrow> map tc_tool l | None \<Rightarrow> []) \<rparr>,
                           db4)))))"

section \<open>Example requests\<close>

text \<open>
  Concrete stores, requests and model behaviours, used to run the definitions: an empty
  store and one with a conversation under way; a first message and a follow-up; a model
  that routes to the order agent and answers after one tool call, one whose
  classification call returns no tool call, one whose calls all throw, and one whose
  token stream breaks after the first delta.
\<close>

definition empty_store :: Database where
  "empty_store = \<lparr> conversationTbl = [], messageTbl = [], clock = 0, nextId = 0 \<rparr>"

definition ongoing_store :: Database where
  "ongoing_store =
    \<lparr> conversationTbl =
        [\<lparr> c_id = ''conv_1'', c_userId = ''user_demo'', title = Some ''Password reset'',
           summary = None, updatedAt = 2 \<rparr>],
      messageTbl =
        [\<lparr> m_id = ''msg_1'', m_conversationId = ''conv_1'', m_role = user,
           m_content = ''How do I reset my password?'', m_agentType = None,
           m_toolCalls = None, createdAt = 0 \<rparr>,
         \<lparr> m_id = ''msg_2'', m_conversationId = ''conv_1'', m_role = assistant,
           m_content = ''Go to settings.'', m_agentType = Some support,
           m_toolCalls = None, createdAt = 1 \<rparr>],
      clock = 2, nextId = 0 \<rparr>"

definition orders_question :: ChatInput where
  "orders_question =
    \<lparr> in_userId = ''user_demo'', in_conversationId = None,
      in_message = ''What are my recent orders?'' \<rparr>"

definition follow_up :: ChatInput where
  "follow_up =
    \<lparr> in_userId = ''user_demo'', in_conversationId = Some ''conv_1'',
      in_message = ''Thanks, and my orders?'' \<rparr>"

definition orders_stream :: StreamTextOutcome where
  "orders_stream =
    \<lparr> parts = [PartToolCall ''call_1'' ''getUserOrders'' ''{}'',
               PartToolResult ''call_1'' ''getUserOrders'' ''[]'',
               PartOther ''step-finish'',
               PartTextDelta ''You have '', PartTextDelta ''4 orders.'',
               PartOther ''finish''],
      steps = [\<lparr> step_toolCalls = [(''call_1'', ''getUserOrders'', ''{}'')],
                 step_toolResults = [(''call_1'', ''[]'')] \<rparr>],
      thrown = None \<rparr>"

definition answering_model :: LanguageModel where
  "answering_model =
    \<lparr> generateText = (\<lambda>_. Inr [\<lparr> toolName = ''route'',
          rt_args = \<lparr> rr_agent = order, confidence = 9/10,
                      reasoning = ''Asks about orders'' \<rparr> \<rparr>]),
      streamText = (\<lambda>_. orders_stream),
      generateText_agent = (\<lambda>_. Inr (''You have 4 orders.'', steps orders_stream)) \<rparr>"

definition undecided_model :: LanguageModel where
  "undecided_model = answering_model\<lparr> generateText := (\<lambda>_. Inr []) \<rparr>"

definition failing_model :: LanguageModel where
  "failing_model =
    \<lparr> generateText = (\<lambda>_. Inl (ErrorObject ''Service unavailable'')),
      streamText = (\<lambda>_. \<lparr> parts = [], steps = [],
                            thrown = Some (ErrorObject ''Service unavailable'') \<rparr>),
      generateText_agent = (\<lambda>_. Inl (ErrorObject ''Service unavailable'')) \<rparr>"

definition interrupted_model :: LanguageModel where
  "interrupted_model =
    answering_model\<lparr> streamText :=
      (\<lambda>_. \<lparr> parts = [PartTextDelta ''You have ''], steps = [],
              thrown = Some (ErrorObject ''Connection reset'') \<rparr>) \<rparr>"

definition orders_context :: AgentContext where
  "orders_context =
    \<lparr> userId = ''user_demo'', conversationId = ''conv_1'',
      messages = [\<lparr> role = user, content = ''What are my recent orders?'' \<rparr>] \<rparr>"

definition system_only_context :: AgentContext where
  "system_only_context =
    \<lparr> userId = ''user_demo'', conversationId = ''conv_1'',
      messages = [\<lparr> role = system, content = ''Be brief.'' \<rparr>] \<rparr>"

definition greeting_store :: Database where
  "greeting_store =
    \<lparr> conversationTbl =
        [\<lparr> c_id = ''conv_2'', c_userId = ''user_demo'', title = None,
           summary = None, updatedAt = 1 \<rparr>],
      messageTbl =
        [\<lparr> m_id = ''msg_3'', m_conversationId = ''conv_2'', m_role = assistant,
           m_content = ''Hello, how can I help?'', m_agentType = Some support,
           m_toolCalls = None, createdAt = 0 \<rparr>],
      clock = 1, nextId = 0 \<rparr>"

definition long_question :: ChatInput where
  "long_question =
    \<lparr> in_userId = ''user_demo'', in_conversationId = None,
      in_message = ''Where is my order ORD-2024-001 and when will it be delivered?'' \<rparr>"

section \<open>Properties of the billing tools\<close>

lemma payment_findUnique_Some:
  "payment_findUnique tbl n = Some p \<Longrightarrow> p \<in> set tbl \<and> invoiceNumber p = n"
  unfolding payment_findUnique_def
  by (induction tbl) (auto split: if_splits)

text \<open>
  Claim C3, as stated: \<open>checkRefundStatus\<close> reports \<open>hasRefund: true\<close> together with a
  non-null \<open>remainingBalance\<close> only for a partially refunded payment, and for a fully
  refunded payment the remaining balance is exactly 0. The code sets \<open>hasRefund\<close> for
  both refund statuses and subtracts whatever refund amount the row records. The two
  evaluations below show it: the seeded fully refunded invoice has \<open>hasRefund\<close> and a
  non-null balance, and a fully refunded row that records no refund amount keeps its whole
  amount as balance. The two subtractions are of a number from itself and of 0 from a
  number, where the subtraction of doubles is the exact one.
\<close>

theorem checkRefundStatus_refunded_counterexample:
  "checkRefundStatus (\<lambda>x y. x - y)
     [\<lparr> invoiceNumber = ''INV-2024-004'', amount = 7999/100, status = refunded,
        payment_method = ''credit_card'', refundAmount = Some (7999/100),
        refundReason = Some ''Order cancelled by customer'' \<rparr>]
     ''INV-2024-004''
   = RefundFound
      \<lparr> rs_invoiceNumber = ''INV-2024-004'', originalAmount = 7999/100,
        paymentStatus = refunded, hasRefund = True, rs_refundAmount = Some (7999/100),
        rs_refundReason = Some ''Order cancelled by customer'',
        remainingBalance = Some 0,
        refundEligible = False, rs_message = RefundProcessed (Some (7999/100)) None \<rparr>
   \<and>
   checkRefundStatus (\<lambda>x y. x - y)
     [\<lparr> invoiceNumber = ''INV-2024-004'', amount = 7999/100, status = refunded,
        payment_method = ''credit_card'', refundAmount = None, refundReason = None \<rparr>]
     ''INV-2024-004''
   = RefundFound
      \<lparr> rs_invoiceNumber = ''INV-2024-004'', originalAmount = 7999/100,
        paymentStatus = refunded, hasRefund = True, rs_refundAmount = None,
        rs_refundReason = None, remainingBalance = Some (7999/100),
        refundEligible = False, rs_message = RefundProcessed None None \<rparr>"
  by (simp add: checkRefundStatus_def payment_findUnique_def or_zero_def)

text \<open>
  Claim C3, amended: for every payment found, \<open>hasRefund\<close> is true, and
  \<open>remainingBalance\<close> is non-null, exactly when the status is \<open>refunded\<close> or
  \<open>partially_refunded\<close>; the balance is then what the subtraction of doubles returns for
  the amount and the recorded refund amount (0 when none is recorded). For a fully
  refunded payment whose recorded refund amount equals its amount, the balance is exactly
  0. This holds for every subtraction that gives 0 for a number minus itself, as the
  subtraction of doubles does.
\<close>

theorem checkRefundStatus_remainingBalance:
  assumes "payment_findUnique tbl n = Some p"
      and "\<And>x. fsub x x = 0"
  shows "\<exists>rs. checkRefundStatus fsub tbl n = RefundFound rs
          \<and> paymentStatus rs = status p
          \<and> hasRefund rs = (status p = refunded \<or> status p = partially_refunded)
          \<and> (remainingBalance rs \<noteq> None) = (status p = refunded \<or> status p = partially_refunded)
          \<and> remainingBalance rs =
              (if hasRefund rs then Some (fsub (amount p) (or_zero (refundAmount p)))
               else None)
          \<and> (status p = refunded \<and> refundAmount p = Some (amount p)
                \<longrightarrow> remainingBalance rs = Some 0)"
  using assms by (simp add: checkRefundStatus_def or_zero_def Let_def)

theorem checkRefundStatus_remainingBalance_witness:
  "\<exists>rs. checkRefundStatus (\<lambda>x y. x - y)
          [\<lparr> invoiceNumber = ''INV-2024-004'', amount = 7999/100, status = refunded,
             payment_method = ''credit_card'', refundAmount = Some (7999/100),
             refundReason = Some ''Order cancelled by customer'' \<rparr>]
          ''INV-2024-004'' = RefundFound rs
        \<and> hasRefund rs \<and> remainingBalance rs = Some 0"
proof -
  let ?p = "\<lparr> invoiceNumber = ''INV-2024-004'', amount = 7999/100, status = refunded,
             payment_method = ''credit_card'', refundAmount = Some (7999/100),
             refundReason = Some ''Order cancelled by customer'' \<rparr>"
  have found: "payment_findUnique [?p] ''INV-2024-004'' = Some ?p"
    by (simp add: payment_findUnique_def)
  have self: "(\<lambda>x y. x - y) x x = 0" for x :: rat
    by simp
  have "\<exists>rs. checkRefundStatus (\<lambda>x y. x - y) [?p] ''INV-2024-004'' = RefundFound rs
          \<and> paymentStatus rs = status ?p
          \<and> hasRefund rs = (status ?p = refunded \<or> status ?p = partially_refunded)
          \<and> (remainingBalance rs \<noteq> None)
              = (status ?p = refunded \<or> status ?p = partially_refunded)
          \<and> remainingBalance rs =
              (if hasRefund rs
               then Some ((\<lambda>x y. x - y) (amount ?p) (or_zero (refundAmount ?p)))
               else None)
          \<and> (status ?p = refunded \<and> refundAmount ?p = Some (amount ?p)
                \<longrightarrow> remainingBalance rs = Some 0)"
    using found self by (rule checkRefundStatus_remainingBalance)
  then show ?thesis by auto
qed

text \<open>
  Where \<open>requestRefund\<close> keeps its preconditions: a payment that is not \<open>completed\<close>
  is refused; a requested amount above the payment amount is refused unless it is the
  amount 0 set against a negative payment amount; and the payment table is returned as it
  was received.
\<close>

lemma requestRefund_refusals:
  "(payment_findUnique tbl n = Some p \<and> status p \<noteq> completed
      \<longrightarrow> \<not> success (fst (requestRefund now tbl n amt reason)))
   \<and> (payment_findUnique tbl n = Some p \<and> amt = Some a \<and> a > amount p
        \<and> (a \<noteq> 0 \<or> amount p \<ge> 0)
      \<longrightarrow> \<not> success (fst (requestRefund now tbl n amt reason)))
   \<and> snd (requestRefund now tbl n amt reason) = tbl"
  by (auto simp add: requestRefund_def amount_or_def Let_def split: option.splits)

text \<open>
  The default \<open>amount || payment.amount\<close> also replaces an amount that was given: on the
  seeded invoice of 199.97 the request for a refund of 0 is answered with a full refund.
\<close>

lemma requestRefund_zero_is_full_refund:
  "fst (requestRefund 7
      [\<lparr> invoiceNumber = ''INV-2024-001'', amount = 19997/100, status = completed,
         payment_method = ''credit_card'', refundAmount = None, refundReason = None \<rparr>]
      ''INV-2024-001'' (Some 0) ''test'')
   = RefundInitiated
      \<lparr> rr_invoiceNumber = ''INV-2024-001'', rr_originalAmount = 19997/100,
        rr_refundAmount = 19997/100, isPartialRefund = False, rr_reason = ''test'',
        estimatedProcessingTime = ''5-7 business days'',
        refundMethod = ''Original payment method (credit_card)'',
        referenceNumber = 7 \<rparr>"
  by (simp add: requestRefund_def payment_findUnique_def amount_or_def Let_def)


section \<open>Properties of the responders\<close>

lemma stream_parts_fullText:
  "snd (stream_parts ps ft) = ft @ concat (deltas (fst (stream_parts ps ft)))"
  by (induction ps ft rule: stream_parts.induct) (auto split: prod.splits)

lemma stream_parts_no_done: "filter is_done (fst (stream_parts ps ft)) = []"
  by (induction ps ft rule: stream_parts.induct) (auto split: prod.splits)

lemma stream_parts_no_routing: "x \<in> set (fst (stream_parts ps ft)) \<Longrightarrow> \<not> is_routing x"
  by (induction ps ft arbitrary: x rule: stream_parts.induct) (auto split: prod.splits)

lemma deltas_append: "deltas (xs @ ys) = deltas xs @ deltas ys"
  by (induction xs rule: deltas.induct) auto

text \<open>
  Claim C5: for every responder run (\<open>BaseAgent.streamResponse\<close>), concatenating the
  \<open>delta\<close> fields of the \<open>text_delta\<close> chunks in emission order gives exactly the
  \<open>fullText\<close> of the single terminal \<open>done\<close> chunk. A run that ends normally yields
  exactly one \<open>done\<close> chunk, as its last chunk, and its text is that concatenation; a
  run the stream breaks off yields no \<open>done\<close> chunk at all.
\<close>

theorem streamResponse_fullText:
  "(snd (streamResponse config model context) = None \<longrightarrow>
      (\<exists>pre tcs. fst (streamResponse config model context)
                   = pre @ [Done (AgentDone (concat (deltas (fst (streamResponse config model context)))) tcs)]
                 \<and> filter is_done pre = []))
   \<and> (snd (streamResponse config model context) \<noteq> None \<longrightarrow>
        filter is_done (fst (streamResponse config model context)) = [])"
proof -
  let ?req = "\<lparr> st_agent = agent_type config, st_userId = userId context,
             st_conversationId = conversationId context,
             st_messages = messages context, st_maxSteps = 5 \<rparr>"
  let ?res = "streamText model ?req"
  obtain chunks ft where sp: "stream_parts (parts ?res) [] = (chunks, ft)"
    by (cases "stream_parts (parts ?res) []")
  have ft: "ft = concat (deltas chunks)"
    using stream_parts_fullText [of "parts ?res" "[]"] sp by simp
  have nd: "filter is_done chunks = []"
    using stream_parts_no_done [of "parts ?res" "[]"] sp by simp
  show ?thesis
  proof (cases "thrown ?res")
    case None
    then show ?thesis using sp ft nd
      by (simp add: streamResponse_def Let_def deltas_append)
  next
    case (Some e)
    then show ?thesis using sp nd
      by (simp add: streamResponse_def Let_def)
  qed
qed

lemma orders_response:
  "streamResponse orderAgent answering_model orders_context =
    ([ToolCall ''getUserOrders'' ''{}'', ToolResult ''getUserOrders'' ''[]'',
      TextDelta ''You have '', TextDelta ''4 orders.'',
      Done (AgentDone ''You have 4 orders.''
             [\<lparr> tc_tool = ''getUserOrders'', tc_args = Some ''{}'',
                tc_result = Some ''[]'' \<rparr>])], None)"
  by (simp add: streamResponse_def answering_model_def orders_stream_def onStepFinish_def)

lemma interrupted_response:
  "streamResponse orderAgent interrupted_model orders_context =
    ([TextDelta ''You have ''], Some (ErrorObject ''Connection reset''))"
  by (simp add: streamResponse_def interrupted_model_def answering_model_def)

theorem streamResponse_fullText_witness:
  "snd (streamResponse orderAgent answering_model orders_context) = None
   \<and> (\<exists>pre tcs. fst (streamResponse orderAgent answering_model orders_context)
                   = pre @ [Done (AgentDone ''You have 4 orders.'' tcs)]
                 \<and> filter is_done pre = [])
   \<and> snd (streamResponse orderAgent interrupted_model orders_context) \<noteq> None
   \<and> filter is_done (fst (streamResponse orderAgent interrupted_model orders_context)) = []"
proof -
  have done1: "snd (streamResponse orderAgent answering_model orders_context) = None"
    by (simp add: orders_response)
  have text1: "concat (deltas (fst (streamResponse orderAgent answering_model orders_context)))
               = ''You have 4 orders.''"
    by (simp add: orders_response)
  have broken: "snd (streamResponse orderAgent interrupted_model orders_context) \<noteq> None"
    by (simp add: interrupted_response)
  from done1 text1 streamResponse_fullText [of orderAgent answering_model orders_context]
  have a: "\<exists>pre tcs. fst (streamResponse orderAgent answering_model orders_context)
                   = pre @ [Done (AgentDone ''You have 4 orders.'' tcs)]
                 \<and> filter is_done pre = []"
    by simp
  from broken streamResponse_fullText [of orderAgent interrupted_model orders_context]
  have b: "filter is_done (fst (streamResponse orderAgent interrupted_model orders_context)) = []"
    by blast
  from done1 a broken b show ?thesis by blast
qed

section \<open>Properties of the router\<close>

lemma streamResponse_no_routing:
  assumes "x \<in> set (fst (streamResponse config model context))"
  shows "\<not> is_routing x"
proof -
  let ?res = "streamText model
           \<lparr> st_agent = agent_type config, st_userId = userId context,
             st_conversationId = conversationId context,
             st_messages = messages context, st_maxSteps = 5 \<rparr>"
  obtain chunks ft where sp: "stream_parts (parts ?res) [] = (chunks, ft)"
    by (cases "stream_parts (parts ?res) []")
  have nr: "\<forall>y \<in> set chunks. \<not> is_routing y"
    using stream_parts_no_routing [of _ "parts ?res" "[]"] sp by simp
  have "x \<in> set chunks \<or> is_done x"
    using assms sp by (cases "thrown ?res") (auto simp add: streamResponse_def Let_def)
  then show ?thesis using nr by (cases x) auto
qed

lemma routing_at_1:
  assumes "\<forall>x \<in> set rest. \<not> is_routing x"
      and "i < length (Thinking a None # Routing t n r c # Thinking b None # rest)"
      and "is_routing ((Thinking a None # Routing t n r c # Thinking b None # rest) ! i)"
  shows "i = 1"
proof (cases i)
  case 0
  then show ?thesis using assms(3) by simp
next
  case (Suc i1)
  show ?thesis
  proof (cases i1)
    case 0
    then show ?thesis using Suc by simp
  next
    case (Suc i2)
    show ?thesis
    proof (cases i2)
      case 0
      then show ?thesis using \<open>i = Suc i1\<close> \<open>i1 = Suc i2\<close> assms(3) by simp
    next
      case (Suc i3)
      then have "i3 < length rest" and "is_routing (rest ! i3)"
        using \<open>i = Suc i1\<close> \<open>i1 = Suc i2\<close> assms(2,3) by simp_all
      then show ?thesis using assms(1) by (meson nth_mem)
    qed
  qed
qed

lemma content_after_1:
  assumes "is_tool_call ((Thinking a None # Routing t n r c # Thinking b None # rest) ! j)
           \<or> is_text_delta ((Thinking a None # Routing t n r c # Thinking b None # rest) ! j)"
  shows "1 < j"
proof (cases j)
  case 0
  then show ?thesis using assms by simp
next
  case (Suc j1)
  then show ?thesis using assms by (cases j1) simp_all
qed

lemma routing_first_shape:
  assumes "\<forall>x \<in> set rest. \<not> is_routing x"
      and "evs = Thinking a None # Routing t n r c # Thinking b None # rest"
  shows "length (filter is_routing evs) \<le> 1
       \<and> (\<forall>i j. i < length evs \<and> j < length evs \<and> is_routing (evs ! i)
               \<and> (is_tool_call (evs ! j) \<or> is_text_delta (evs ! j))
             \<longrightarrow> i < j)"
proof -
  have f: "filter is_routing rest = []" using assms(1) by (simp add: filter_empty_conv)
  have one: "length (filter is_routing evs) \<le> 1" using f assms(2) by simp
  have ord: "i < j" if "i < length evs" "is_routing (evs ! i)"
      "is_tool_call (evs ! j) \<or> is_text_delta (evs ! j)" for i j
  proof -
    have "i = 1" using routing_at_1 [OF assms(1)] that(1,2) unfolding assms(2) by blast
    moreover have "1 < j" using content_after_1 that(3) unfolding assms(2) by blast
    ultimately show ?thesis by simp
  qed
  show ?thesis using one ord by blast
qed

text \<open>
  Claim C4: for every input context, the chunk sequence of
  \<open>RouterAgent.processMessage\<close> contains at most one \<open>routing\<close> chunk, and that
  chunk comes before every \<open>tool_call\<close> and every \<open>text_delta\<close> chunk of the sequence.
\<close>

theorem processMessage_routing_first:
  "length (filter is_routing (processMessage model context)) \<le> 1
   \<and> (\<forall>i j. i < length (processMessage model context)
           \<and> j < length (processMessage model context)
           \<and> is_routing (processMessage model context ! i)
           \<and> (is_tool_call (processMessage model context ! j)
              \<or> is_text_delta (processMessage model context ! j))
         \<longrightarrow> i < j)"
proof (cases "fst (route model context)")
  case (Inl e)
  then have "processMessage model context =
      [Thinking ''Analyzing your request...'' None, Error (error_message e)]"
    by (simp add: processMessage_def)
  then show ?thesis by (simp add: nth_Cons' less_Suc_eq)
next
  case (Inr d)
  obtain agent routing where d: "d = (agent, routing)" by (cases d)
  obtain chunks ex where sr: "streamResponse agent model context = (chunks, ex)"
    by (cases "streamResponse agent model context")
  define rest where "rest = (case ex of None \<Rightarrow> chunks | Some e \<Rightarrow> chunks @ [Error (error_message e)])"
  have nr: "\<forall>x \<in> set rest. \<not> is_routing x"
    using streamResponse_no_routing [of _ agent model "context"] sr
    by (auto simp add: rest_def split: option.splits)
  have "processMessage model context =
      Thinking ''Analyzing your request...'' None #
      Routing (agent_type agent) (agent_name agent) (reasoning routing) (confidence routing) #
      Thinking (''Connecting you with '' @ agent_name agent @ ''...'') None # rest"
    using Inr d sr by (simp add: processMessage_def rest_def split: option.splits)
  then show ?thesis by (rule routing_first_shape [OF nr])
qed


lemma orders_run:
  "processMessage answering_model orders_context =
    [Thinking ''Analyzing your request...'' None,
     Routing order ''Order Agent'' ''Asks about orders'' (9/10),
     Thinking ''Connecting you with Order Agent...'' None,
     ToolCall ''getUserOrders'' ''{}'', ToolResult ''getUserOrders'' ''[]'',
     TextDelta ''You have '', TextDelta ''4 orders.'',
     Done (AgentDone ''You have 4 orders.''
            [\<lparr> tc_tool = ''getUserOrders'', tc_args = Some ''{}'',
               tc_result = Some ''[]'' \<rparr>])]"
proof -
  have "fst (route answering_model orders_context) =
          Inr (orderAgent, \<lparr> rr_agent = order, confidence = 9/10,
                             reasoning = ''Asks about orders'' \<rparr>)"
    by (simp add: route_def answering_model_def orders_context_def)
  moreover have "agent_type orderAgent = order" and "agent_name orderAgent = ''Order Agent''"
    by (simp_all add: orderAgent_def)
  ultimately show ?thesis
    by (simp add: processMessage_def orders_response)
qed

theorem processMessage_routing_first_witness:
  "is_routing (processMessage answering_model orders_context ! 1)
   \<and> is_tool_call (processMessage answering_model orders_context ! 3)
   \<and> is_text_delta (processMessage answering_model orders_context ! 5)
   \<and> (1::nat) < 3 \<and> (1::nat) < 5
   \<and> length (filter is_routing (processMessage answering_model orders_context)) \<le> 1"
proof -
  let ?evs = "processMessage answering_model orders_context"
  have len: "1 < length ?evs" "3 < length ?evs" "5 < length ?evs"
    by (simp_all add: orders_run)
  have r: "is_routing (?evs ! 1)" by (simp add: orders_run)
  have t: "is_tool_call (?evs ! 3)" by (simp add: orders_run)
  have d: "is_text_delta (?evs ! 5)" by (simp add: orders_run)
  note rf = processMessage_routing_first [of answering_model orders_context]
  from rf len r t have "(1::nat) < 3" by blast
  moreover from rf len r d have "(1::nat) < 5" by blast
  moreover from rf have "length (filter is_routing ?evs) \<le> 1" by blast
  ultimately show ?thesis using r t d by blast
qed

text \<open>
  Claim C6: for every context whose message history contains no user message,
  \<open>RouterAgent.route\<close> returns the support agent with the decision
  \<open>{ agent: 'support', confidence: 1, reasoning: 'No user message found, defaulting to
  support' }\<close>, and sends no request to the model.
\<close>

theorem route_no_user_message:
  "\<forall>m \<in> set (messages context). role m \<noteq> user \<Longrightarrow>
   route model context =
     (Inr (supportAgent,
           \<lparr> rr_agent = support, confidence = 1,
             reasoning = ''No user message found, defaulting to support'' \<rparr>), [])"
proof -
  assume "\<forall>m \<in> set (messages context). role m \<noteq> user"
  then have "find (\<lambda>m. role m = user) (rev (messages context)) = None"
    by (simp add: find_None_iff)
  then show ?thesis by (simp add: route_def)
qed

theorem route_no_user_message_witness:
  "route failing_model system_only_context =
     (Inr (supportAgent,
           \<lparr> rr_agent = support, confidence = 1,
             reasoning = ''No user message found, defaulting to support'' \<rparr>), [])"
proof -
  have h: "\<forall>m \<in> set (messages system_only_context). role m \<noteq> user"
    by (simp add: system_only_context_def)
  from route_no_user_message [OF h, of failing_model] show ?thesis .
qed

lemma route_calls:
  "find (\<lambda>m. role m = user) (rev (messages context)) = Some m \<Longrightarrow>
   snd (route model context) = [route_request context m]"
  by (simp add: route_def Let_def split: sum.splits)

text \<open>
  When the classification call throws, \<open>route\<close> has nothing that catches it: the
  \<open>catch\<close> of \<open>processMessage\<close> ends the sequence with an \<open>error\<close> chunk, before
  any \<open>routing\<close> chunk and without a responder.
\<close>

lemma processMessage_classification_throws:
  assumes "snd (route model context) = [request]"
      and "generateText model request = Inl e"
  shows "processMessage model context =
           [Thinking ''Analyzing your request...'' None, Error (error_message e)]"
proof -
  obtain m where m: "find (\<lambda>m. role m = user) (rev (messages context)) = Some m"
    using assms(1) by (cases "find (\<lambda>m. role m = user) (rev (messages context))")
      (simp_all add: route_def)
  have "snd (route model context) = [route_request context m]"
    using m by (rule route_calls)
  then have "generateText model (route_request context m) = Inl e"
    using assms by simp
  then have "fst (route model context) = Inl e"
    using m by (simp add: route_def Let_def)
  then show ?thesis by (simp add: processMessage_def)
qed

text \<open>
  Claim C7, as stated: whenever the text-generation capability fails to return a routing
  decision, the Delegator still emits a \<open>routing\<close> chunk with confidence 0.5 and goes on
  with the support responder. A capability that fails by throwing returns no decision
  either, and there the sequence is \<open>thinking\<close>, \<open>error\<close>: no \<open>routing\<close> chunk and
  no responder.
\<close>

theorem processMessage_classification_throws_counterexample:
  "generateText failing_model
     (route_request orders_context
        \<lparr> role = user, content = ''What are my recent orders?'' \<rparr>)
     = Inl (ErrorObject ''Service unavailable'')
   \<and> snd (route failing_model orders_context) =
       [route_request orders_context
          \<lparr> role = user, content = ''What are my recent orders?'' \<rparr>]
   \<and> processMessage failing_model orders_context =
       [Thinking ''Analyzing your request...'' None, Error ''Service unavailable'']"
proof -
  let ?req = "route_request orders_context
                \<lparr> role = user, content = ''What are my recent orders?'' \<rparr>"
  have calls: "snd (route failing_model orders_context) = [?req]"
    by (rule route_calls) (simp add: orders_context_def)
  have g: "generateText failing_model ?req = Inl (ErrorObject ''Service unavailable'')"
    by (simp add: failing_model_def)
  from processMessage_classification_throws [OF calls g] calls g
  show ?thesis by simp
qed

text \<open>
  Claim C7, amended: whenever the classification call returns without a \<open>route\<close> tool
  call (its list of tool calls is empty, or the first is not \<open>route\<close>), \<open>route\<close> does
  not throw but returns the support agent with confidence 0.5 and the rationale \<open>Could
  not determine intent, defaulting to support\<close>; \<open>processMessage\<close> then yields the
  \<open>routing\<close> chunk with these values and goes on with the chunks of the support agent's
  \<open>streamResponse\<close>.
\<close>

theorem processMessage_fallback:
  assumes "snd (route model context) = [request]"
      and "generateText model request = Inr tcs"
      and "tcs = [] \<or> toolName (hd tcs) \<noteq> ''route''"
  shows "fst (route model context) =
           Inr (supportAgent,
                \<lparr> rr_agent = support, confidence = 1/2,
                  reasoning = ''Could not determine intent, defaulting to support'' \<rparr>)
         \<and> processMessage model context =
             Thinking ''Analyzing your request...'' None #
             Routing support ''Support Agent''
               ''Could not determine intent, defaulting to support'' (1/2) #
             Thinking ''Connecting you with Support Agent...'' None #
             (case streamResponse supportAgent model context of
                (chunks, None) \<Rightarrow> chunks
              | (chunks, Some e) \<Rightarrow> chunks @ [Error (error_message e)])"
proof -
  obtain m where m: "find (\<lambda>m. role m = user) (rev (messages context)) = Some m"
    using assms(1) by (cases "find (\<lambda>m. role m = user) (rev (messages context))")
      (simp_all add: route_def)
  define req where "req = route_request context m"
  have calls: "snd (route model context) = [req]"
    using m unfolding req_def by (rule route_calls)
  then have "request = req" using assms(1) by simp
  then have g: "generateText model req = Inr tcs" using assms(2) by simp
  have r: "fst (route model context) =
           Inr (supportAgent,
                \<lparr> rr_agent = support, confidence = 1/2,
                  reasoning = ''Could not determine intent, defaulting to support'' \<rparr>)"
    using m g assms(3) unfolding req_def
    by (cases tcs) (simp_all add: route_def Let_def)
  show ?thesis using r by (simp add: processMessage_def supportAgent_def)
qed

theorem processMessage_fallback_witness:
  "snd (route undecided_model orders_context) =
     [route_request orders_context \<lparr> role = user, content = ''What are my recent orders?'' \<rparr>]
   \<and> generateText undecided_model
        (route_request orders_context \<lparr> role = user, content = ''What are my recent orders?'' \<rparr>)
       = Inr []
   \<and> take 3 (processMessage undecided_model orders_context) =
       [Thinking ''Analyzing your request...'' None,
        Routing support ''Support Agent''
          ''Could not determine intent, defaulting to support'' (1/2),
        Thinking ''Connecting you with Support Agent...'' None]"
proof -
  let ?req = "route_request orders_context
                \<lparr> role = user, content = ''What are my recent orders?'' \<rparr>"
  have calls: "snd (route undecided_model orders_context) = [?req]"
    by (rule route_calls) (simp add: orders_context_def)
  have g: "generateText undecided_model ?req = Inr []"
    by (simp add: undecided_model_def answering_model_def)
  from processMessage_fallback [OF calls g]
  have "take 3 (processMessage undecided_model orders_context) =
       [Thinking ''Analyzing your request...'' None,
        Routing support ''Support Agent''
          ''Could not determine intent, defaulting to support'' (1/2),
        Thinking ''Connecting you with Support Agent...'' None]"
    by simp
  with calls g show ?thesis by blast
qed

section \<open>Properties of the conversation service\<close>

text \<open>
  Claim C10: for every conversation that has no messages, or none with the role
  \<open>user\<close>, \<open>generateTitle\<close> returns \<open>New Conversation\<close> and leaves the store, and
  with it the conversation's title, as it was.
\<close>

theorem generateTitle_no_user_message:
  "\<forall>m \<in> set (messageTbl db). m_conversationId m = cid \<longrightarrow> m_role m \<noteq> user
    \<Longrightarrow> generateTitle cid db = (''New Conversation'', db)"
proof -
  assume a: "\<forall>m \<in> set (messageTbl db). m_conversationId m = cid \<longrightarrow> m_role m \<noteq> user"
  let ?msgs = "take 2 (filter (\<lambda>m. m_conversationId m = cid) (messageTbl db))"
  have "\<forall>m \<in> set ?msgs. m_role m \<noteq> user"
    using a by (auto dest: in_set_takeD)
  then have "find (\<lambda>m. m_role m = user) ?msgs = None"
    by (simp add: find_None_iff)
  then show ?thesis by (simp add: generateTitle_def Let_def)
qed

theorem generateTitle_no_user_message_witness:
  "generateTitle ''conv_9'' ongoing_store = (''New Conversation'', ongoing_store)
   \<and> generateTitle ''conv_2'' greeting_store = (''New Conversation'', greeting_store)"
proof -
  have none: "\<forall>m \<in> set (messageTbl ongoing_store).
                m_conversationId m = ''conv_9'' \<longrightarrow> m_role m \<noteq> user"
    by (simp add: ongoing_store_def)
  have greeting: "\<forall>m \<in> set (messageTbl greeting_store).
                m_conversationId m = ''conv_2'' \<longrightarrow> m_role m \<noteq> user"
    by (simp add: greeting_store_def)
  from generateTitle_no_user_message [OF none] generateTitle_no_user_message [OF greeting]
  show ?thesis by (rule conjI)
qed

section \<open>Properties of the chat service\<close>

lemma find_map_same_id:
  assumes "\<And>c. c_id (g c) = c_id c"
  shows "find (\<lambda>c. c_id c = cid) (map (\<lambda>c. if c_id c = cid then g c else c) xs)
         = map_option g (find (\<lambda>c. c_id c = cid) xs)"
  using assms by (induction xs) auto

lemma conversation_exists_iff:
  "conversation_exists db cid \<longleftrightarrow> cid \<in> c_id ` set (conversationTbl db)"
  by (auto simp add: conversation_exists_def find_None_iff)

lemma ids_after_update:
  assumes "\<And>c. c_id (g c) = c_id c"
  shows "c_id ` set (map (\<lambda>c. if c_id c = k then g c else c) xs) = c_id ` set xs"
  using assms by (induction xs) auto

lemma addMessage_Inr:
  assumes "addMessage i db = Inr (m, db')"
  shows "conversation_exists db (cm_conversationId i)"
    and "m_conversationId m = cm_conversationId i"
    and "m_role m = cm_role i"
    and "m_content m = cm_content i"
    and "messageTbl db' = messageTbl db @ [m]"
    and "conversationTbl db' =
           map (\<lambda>c. if c_id c = cm_conversationId i then c\<lparr> updatedAt := Suc (clock db) \<rparr> else c)
               (conversationTbl db)"
  using assms
  by (auto simp add: addMessage_def conversation_update_def Let_def conversation_exists_def
           split: if_splits sum.splits)

lemma addMessage_exists_after:
  assumes "addMessage i db = Inr (m, db')"
  shows "conversation_exists db' cid = conversation_exists db cid"
proof -
  have "c_id ` set (conversationTbl db') = c_id ` set (conversationTbl db)"
    unfolding addMessage_Inr(6) [OF assms]
    by (rule ids_after_update) simp
  then show ?thesis by (simp only: conversation_exists_iff)
qed

lemma addMessage_succeeds:
  assumes "conversation_exists db (cm_conversationId i)"
  shows "\<exists>m db'. addMessage i db = Inr (m, db')"
proof -
  have "conversation_exists
          (db\<lparr> messageTbl := messageTbl db @ [x], nextId := Suc (nextId db), clock := Suc (clock db) \<rparr>)
          (cm_conversationId i)" for x
    using assms by (simp add: conversation_exists_def)
  then show ?thesis
    using assms by (simp add: addMessage_def conversation_update_def Let_def)
qed

lemma addMessage_titles:
  assumes "addMessage i db = Inr (m, db')"
  shows "map title (conversationTbl db') = map title (conversationTbl db)"
  using addMessage_Inr(6) [OF assms] by (simp add: comp_def if_distrib cong: if_cong)

lemma generateTitle_first_exchange:
  assumes "filter (\<lambda>m. m_conversationId m = cid) (messageTbl db) = [u, a]"
      and "m_role u = user"
      and "conversation_exists db cid"
  shows "map_option title (find (\<lambda>c. c_id c = cid) (conversationTbl (snd (generateTitle cid db))))
         = Some (Some (if length (m_content u) \<le> 50 then m_content u
                       else take 47 (m_content u) @ ''...''))"
proof -
  let ?t = "if length (m_content u) > 50 then take 47 (m_content u) @ ''...'' else m_content u"
  have gt: "snd (generateTitle cid db) = snd (updateConversation_title cid ?t db)"
    using assms(1,2) by (simp add: generateTitle_def Let_def)
  obtain c where c: "find (\<lambda>c. c_id c = cid) (conversationTbl db) = Some c"
    using assms(3) by (auto simp add: conversation_exists_def)
  have "find (\<lambda>c. c_id c = cid)
          (map (\<lambda>c. if c_id c = cid then c\<lparr> title := Some ?t \<rparr> else c) (conversationTbl db))
        = Some (c\<lparr> title := Some ?t \<rparr>)"
    using find_map_same_id [of "\<lambda>c. c\<lparr> title := Some ?t \<rparr>" cid "conversationTbl db"] c by simp
  then show ?thesis
    using gt assms(3)
    by (simp add: updateConversation_title_def conversation_update_def)
qed

lemma length_take_1: "length (take 50 xs) = 1 \<Longrightarrow> length xs = 1"
  by (cases "length xs \<le> 50") simp_all

text \<open>
  Claim C9: \<open>streamChat\<close> derives and stores a title exactly when the history read
  after the user's message was appended has length 1. Then the conversation's title is the
  user's message itself if it has at most 50 characters, and otherwise its first 47
  characters followed by \<open>...\<close>. With any other history length every conversation keeps
  the title it had.
\<close>

theorem streamChat_title:
  assumes oc: "open_conversation input db = (cid, started, db1)"
      and um: "addMessage \<lparr> cm_conversationId = cid, cm_role = user,
                   cm_content = in_message input, cm_agentType = None,
                   cm_toolCalls = None \<rparr> db1 = Inr (userMessage, db2)"
  shows "(length (getMessages cid db2) = 1 \<longrightarrow>
            map_option title (find (\<lambda>c. c_id c = cid)
                (conversationTbl (snd (streamChat model input db))))
            = Some (Some (if length (in_message input) \<le> 50 then in_message input
                          else take 47 (in_message input) @ ''...'')))
       \<and> (length (getMessages cid db2) \<noteq> 1 \<longrightarrow>
            map title (conversationTbl (snd (streamChat model input db)))
            = map title (conversationTbl db1))"
proof -
  let ?history = "getMessages cid db2"
  let ?chunks = "processMessage model
                   \<lparr> userId = in_userId input, conversationId = cid,
                     messages = map (\<lambda>msg. \<lparr> role = m_role msg, content = m_content msg \<rparr>) ?history \<rparr>"
  let ?st = "foldl chat_step \<lparr> fullResponse = [], agentType = support, toolCalls = [] \<rparr> ?chunks"
  let ?ai = "\<lparr> cm_conversationId = cid, cm_role = assistant,
               cm_content = fullResponse ?st, cm_agentType = Some (agentType ?st),
               cm_toolCalls = (if length (filter (\<lambda>t. tc_tool t \<noteq> []) (toolCalls ?st)) > 0
                               then Some (toolCalls ?st) else None) \<rparr>"
  have ex1: "conversation_exists db1 cid" using addMessage_Inr(1) [OF um] by simp
  have ex2: "conversation_exists db2 cid" using addMessage_exists_after [OF um] ex1 by simp
  obtain saved db3 where am: "addMessage ?ai db2 = Inr (saved, db3)"
    using addMessage_succeeds [of db2 ?ai] ex2 by auto
  have ex3: "conversation_exists db3 cid" using addMessage_exists_after [OF am] ex2 by simp
  have sc: "snd (streamChat model input db) =
              (if length ?history = 1 then snd (generateTitle cid db3) else db3)"
    using oc um am by (simp add: streamChat_def Let_def)
  have t3: "map title (conversationTbl db3) = map title (conversationTbl db1)"
    using addMessage_titles [OF am] addMessage_titles [OF um] by simp
  have first: "map_option title (find (\<lambda>c. c_id c = cid)
                  (conversationTbl (snd (generateTitle cid db3))))
               = Some (Some (if length (in_message input) \<le> 50 then in_message input
                             else take 47 (in_message input) @ ''...''))"
    if h: "length ?history = 1"
  proof -
    have m2: "messageTbl db2 = messageTbl db1 @ [userMessage]"
      using addMessage_Inr(5) [OF um] .
    have ucid: "m_conversationId userMessage = cid" using addMessage_Inr(2) [OF um] by simp
    have "length (filter (\<lambda>m. m_conversationId m = cid) (messageTbl db2)) = 1"
      using h length_take_1 by (simp add: getMessages_def)
    then have "filter (\<lambda>m. m_conversationId m = cid) (messageTbl db1) = []"
      using m2 ucid by simp
    then have f2: "filter (\<lambda>m. m_conversationId m = cid) (messageTbl db2) = [userMessage]"
      using m2 ucid by simp
    have m3: "messageTbl db3 = messageTbl db2 @ [saved]"
      using addMessage_Inr(5) [OF am] .
    have scid: "m_conversationId saved = cid" using addMessage_Inr(2) [OF am] by simp
    have f3: "filter (\<lambda>m. m_conversationId m = cid) (messageTbl db3) = [userMessage, saved]"
      using m3 f2 scid by simp
    have ur: "m_role userMessage = user" using addMessage_Inr(3) [OF um] by simp
    have uc: "m_content userMessage = in_message input" using addMessage_Inr(4) [OF um] by simp
    show ?thesis
      using generateTitle_first_exchange [OF f3 ur ex3] unfolding uc .
  qed
  show ?thesis using sc first t3 by simp
qed


lemma first_message_appended:
  "open_conversation input empty_store =
     (''c'', [Thinking ''Starting new conversation...'' (Some ''c'')],
      \<lparr> conversationTbl =
          [\<lparr> c_id = ''c'', c_userId = in_userId input, title = None, summary = None,
             updatedAt = 0 \<rparr>],
        messageTbl = [], clock = 0, nextId = 1 \<rparr>)
   \<and> addMessage \<lparr> cm_conversationId = ''c'', cm_role = user,
         cm_content = in_message input, cm_agentType = None, cm_toolCalls = None \<rparr>
       \<lparr> conversationTbl =
          [\<lparr> c_id = ''c'', c_userId = in_userId input, title = None, summary = None,
             updatedAt = 0 \<rparr>],
        messageTbl = [], clock = 0, nextId = 1 \<rparr>
     = Inr (\<lparr> m_id = ''c0'', m_conversationId = ''c'', m_role = user,
              m_content = in_message input, m_agentType = None, m_toolCalls = None,
              createdAt = 0 \<rparr>,
            \<lparr> conversationTbl =
                [\<lparr> c_id = ''c'', c_userId = in_userId input, title = None,
                   summary = None, updatedAt = 1 \<rparr>],
              messageTbl =
                [\<lparr> m_id = ''c0'', m_conversationId = ''c'', m_role = user,
                   m_content = in_message input, m_agentType = None,
                   m_toolCalls = None, createdAt = 0 \<rparr>],
              clock = 1, nextId = 2 \<rparr>)"
  if "no_conversationId (in_conversationId input)"
  using that
  by (simp add: open_conversation_def createConversation_def empty_store_def fresh_id_def
        addMessage_def conversation_exists_def conversation_update_def Let_def
        numeral_2_eq_2)

theorem streamChat_title_witness:
  "map_option title (find (\<lambda>c. c_id c = ''c'')
      (conversationTbl (snd (streamChat answering_model orders_question empty_store))))
     = Some (Some ''What are my recent orders?'')
   \<and> map_option title (find (\<lambda>c. c_id c = ''c'')
      (conversationTbl (snd (streamChat answering_model long_question empty_store))))
     = Some (Some ''Where is my order ORD-2024-001 and when will it...'')
   \<and> map title (conversationTbl (snd (streamChat answering_model follow_up ongoing_store)))
     = [Some ''Password reset'']"
proof -
  have q1: "no_conversationId (in_conversationId orders_question)"
    by (simp add: orders_question_def)
  have a: "map_option title (find (\<lambda>c. c_id c = ''c'')
      (conversationTbl (snd (streamChat answering_model orders_question empty_store))))
     = Some (Some ''What are my recent orders?'')"
    using streamChat_title [OF first_message_appended [OF q1, THEN conjunct1]
                               first_message_appended [OF q1, THEN conjunct2],
                            of answering_model]
    by (simp add: getMessages_def orders_question_def)
  have q2: "no_conversationId (in_conversationId long_question)"
    by (simp add: long_question_def)
  have b: "map_option title (find (\<lambda>c. c_id c = ''c'')
      (conversationTbl (snd (streamChat answering_model long_question empty_store))))
     = Some (Some ''Where is my order ORD-2024-001 and when will it...'')"
    using streamChat_title [OF first_message_appended [OF q2, THEN conjunct1]
                               first_message_appended [OF q2, THEN conjunct2],
                            of answering_model]
    by (simp add: getMessages_def long_question_def)
  have oc: "open_conversation follow_up ongoing_store = (''conv_1'', [], ongoing_store)"
    by (simp add: open_conversation_def follow_up_def)
  have um: "addMessage \<lparr> cm_conversationId = ''conv_1'', cm_role = user,
         cm_content = in_message follow_up, cm_agentType = None, cm_toolCalls = None \<rparr>
       ongoing_store
     = Inr (\<lparr> m_id = ''c'', m_conversationId = ''conv_1'', m_role = user,
              m_content = in_message follow_up, m_agentType = None, m_toolCalls = None,
              createdAt = 2 \<rparr>,
            ongoing_store
              \<lparr> conversationTbl :=
                  [\<lparr> c_id = ''conv_1'', c_userId = ''user_demo'',
                     title = Some ''Password reset'', summary = None, updatedAt = 3 \<rparr>],
                messageTbl := messageTbl ongoing_store @
                  [\<lparr> m_id = ''c'', m_conversationId = ''conv_1'', m_role = user,
                     m_content = in_message follow_up, m_agentType = None,
                     m_toolCalls = None, createdAt = 2 \<rparr>],
                clock := 3, nextId := 1 \<rparr>)"
    by (simp add: addMessage_def conversation_exists_def conversation_update_def
          ongoing_store_def fresh_id_def Let_def)
  have c: "map title (conversationTbl (snd (streamChat answering_model follow_up ongoing_store)))
     = [Some ''Password reset'']"
    using streamChat_title [OF oc um, of answering_model]
    by (simp add: getMessages_def ongoing_store_def)
  from a b c show ?thesis by blast
qed

text \<open>
  Claim C1: the chunk sequence of \<open>streamChat\<close> should contain exactly one \<open>done\<close>
  chunk, the service's own, in place of the responder's. The loop yields every chunk it
  receives, the responder's \<open>done\<close> included, and the service appends its own: the first
  message of a new conversation, answered by the order agent, produces two \<open>done\<close> chunks.
\<close>

theorem streamChat_done_twice:
  "fst (streamChat answering_model orders_question empty_store) =
    ([Thinking ''Starting new conversation...'' (Some ''c''),
      Thinking ''Analyzing your request...'' None,
      Routing order ''Order Agent'' ''Asks about orders'' (9/10),
      Thinking ''Connecting you with Order Agent...'' None,
      ToolCall ''getUserOrders'' ''{}'',
      ToolResult ''getUserOrders'' ''[]'',
      TextDelta ''You have '', TextDelta ''4 orders.'',
      Done (AgentDone ''You have 4 orders.''
             [\<lparr> tc_tool = ''getUserOrders'', tc_args = Some ''{}'',
                tc_result = Some ''[]'' \<rparr>]),
      Done (ChatDone ''c'' ''c00'' order ''You have 4 orders.'')], None)"
  by (simp add: streamChat_def open_conversation_def createConversation_def addMessage_def
        conversation_update_def conversation_exists_def getMessages_def processMessage_def
        route_def streamResponse_def onStepFinish_def generateTitle_def
        updateConversation_title_def fresh_id_def answering_model_def orders_stream_def
        orders_question_def empty_store_def orderAgent_def Let_def)

text \<open>
  Claim C2: when routing or the responder throws, the user's message should stay stored
  and no assistant message and no title should be written. \<open>processMessage\<close> turns the
  exception into an \<open>error\<close> chunk and ends normally, and \<open>streamChat\<close> goes on as
  after a completed answer: with a model whose calls all throw, the first message of a new
  conversation leaves an assistant message with empty text and a title in the store, and a
  \<open>done\<close> chunk follows the \<open>error\<close> chunk.
\<close>

theorem streamChat_error_persists_assistant:
  "streamChat failing_model orders_question empty_store =
    (([Thinking ''Starting new conversation...'' (Some ''c''),
       Thinking ''Analyzing your request...'' None,
       Error ''Service unavailable'',
       Done (ChatDone ''c'' ''c00'' support [])], None),
     \<lparr> conversationTbl =
         [\<lparr> c_id = ''c'', c_userId = ''user_demo'',
            title = Some ''What are my recent orders?'', summary = None, updatedAt = 2 \<rparr>],
       messageTbl =
         [\<lparr> m_id = ''c0'', m_conversationId = ''c'', m_role = user,
            m_content = ''What are my recent orders?'', m_agentType = None,
            m_toolCalls = None, createdAt = 0 \<rparr>,
          \<lparr> m_id = ''c00'', m_conversationId = ''c'', m_role = assistant,
            m_content = [], m_agentType = Some support, m_toolCalls = None,
            createdAt = 1 \<rparr>],
       clock = 2, nextId = 3 \<rparr>)"
  by (simp add: streamChat_def open_conversation_def createConversation_def addMessage_def
        conversation_update_def conversation_exists_def getMessages_def processMessage_def
        route_def generateTitle_def updateConversation_title_def fresh_id_def
        failing_model_def orders_question_def empty_store_def Let_def)

text \<open>
  The synchronous mode on the same request: the exception leaves \<open>chat\<close>, and the store
  holds the user's message only.
\<close>

lemma chat_error_keeps_user_message:
  "chat failing_model orders_question empty_store =
    (Inl (ErrorObject ''Service unavailable''),
     \<lparr> conversationTbl =
         [\<lparr> c_id = ''c'', c_userId = ''user_demo'', title = None, summary = None,
            updatedAt = 1 \<rparr>],
       messageTbl =
         [\<lparr> m_id = ''c0'', m_conversationId = ''c'', m_role = user,
            m_content = ''What are my recent orders?'', m_agentType = None,
            m_toolCalls = None, createdAt = 0 \<rparr>],
       clock = 1, nextId = 2 \<rparr>)"
  by (simp add: chat_def open_conversation_def createConversation_def addMessage_def
        conversation_update_def conversation_exists_def getMessages_def
        router_generateResponse_def route_def fresh_id_def
        failing_model_def orders_question_def empty_store_def Let_def)

end
